theory Spec2Isabelle
  imports Main
begin

section \<open>JavaScript values and objects\<close>

text \<open>
  The values held by the form fields and by the properties of an address object: a string
  (text and radio inputs, JSON strings) or a boolean (what \<open>handleChange\<close> stores for a
  checkbox). An object is a finite map from property names to values; reading a property
  that is absent gives \<open>None\<close>, JavaScript's \<open>undefined\<close>.
\<close>

datatype jsval = JString string | JBool bool

type_synonym obj = "string \<rightharpoonup> jsval"

text \<open>
  Modelled from the spec: the declaration of the type \<open>Address\<close> (imported from
  \<open>./types\<close>) is not among the sources. An address is an object with an \<open>id\<close> and postal
  properties; a committed record carries \<open>firstName\<close> and \<open>lastName\<close> as well.
\<close>

type_synonym Address = obj

text \<open>The truthiness test behind \<open>!v\<close> and \<open>v && ...\<close> on a property read.\<close>

fun truthy :: "jsval option \<Rightarrow> bool" where
  "truthy None = False"
| "truthy (Some (JString s)) = (s \<noteq> [])"
| "truthy (Some (JBool b)) = b"

text \<open>What a template literal \<open>${v}\<close> inserts.\<close>

fun toString :: "jsval option \<Rightarrow> string" where
  "toString None = ''undefined''"
| "toString (Some (JString s)) = s"
| "toString (Some (JBool b)) = (if b then ''true'' else ''false'')"

section \<open>The form hook: \<open>useForm\<close>\<close>

text \<open>The part of a change event that \<open>handleChange\<close> reads: \<open>e.target\<close>.\<close>

record target =
  target_name :: string
  target_value :: string
  target_type :: string
  target_checked :: bool

text \<open>
  Every operation of the hook is a functional update \<open>setValues((prevValues) => ...)\<close>:
  a function from the previous mapping to the next one. The object spread
  \<open>{...a, ...b}\<close> is \<open>a ++ b\<close>: the properties of \<open>b\<close> win, the others are kept from \<open>a\<close>.
\<close>

definition handleChange :: "target \<Rightarrow> obj \<Rightarrow> obj" where
  "handleChange e prevValues =
     (let fieldValue = (if target_type e = ''checkbox'' then JBool (target_checked e)
                        else JString (target_value e))
      in prevValues(target_name e \<mapsto> fieldValue))"

text \<open>
  \<open>resetForm(newValues?)\<close>: the argument is optional, and \<open>newValues || initialValues\<close>
  takes the initial values exactly when it is absent (an object, even an empty one, is
  truthy).
\<close>

definition resetForm :: "('k \<rightharpoonup> 'v) \<Rightarrow> ('k \<rightharpoonup> 'v) option \<Rightarrow> ('k \<rightharpoonup> 'v) \<Rightarrow> ('k \<rightharpoonup> 'v)" where
  "resetForm initialValues newValues prevValues =
     prevValues ++ (case newValues of Some nv \<Rightarrow> nv | None \<Rightarrow> initialValues)"

definition setFieldValue :: "'k \<Rightarrow> 'v \<Rightarrow> ('k \<rightharpoonup> 'v) \<Rightarrow> ('k \<rightharpoonup> 'v)" where
  "setFieldValue field v prevValues = prevValues(field \<mapsto> v)"

section \<open>The address book slice\<close>

record CounterState =
  addresses :: "Address list"

definition initialState :: CounterState where
  "initialState = \<lparr>addresses = []\<rparr>"

text \<open>
  The reducers mutate a draft of the state; the model returns the next state.
  \<open>some\<close> is \<open>list_ex\<close>, \<open>push\<close> appends at the end, \<open>===\<close> on two property reads is
  equality of the optional values.
\<close>

definition addAddress :: "CounterState \<Rightarrow> Address \<Rightarrow> CounterState" where
  "addAddress state payload =
     (let isDuplicate = list_ex (\<lambda>address. address ''id'' = payload ''id'') (addresses state)
      in if \<not> isDuplicate then state\<lparr>addresses := addresses state @ [payload]\<rparr> else state)"

definition removeAddress :: "CounterState \<Rightarrow> string \<Rightarrow> CounterState" where
  "removeAddress state payload =
     state\<lparr>addresses := filter (\<lambda>address. address ''id'' \<noteq> Some (JString payload)) (addresses state)\<rparr>"

definition updateAddresses :: "CounterState \<Rightarrow> Address list \<Rightarrow> CounterState" where
  "updateAddresses state payload = state\<lparr>addresses := payload\<rparr>"

section \<open>The component \<open>App\<close>\<close>

text \<open>
  The JSON body of the lookup response, with the three properties the handler reads;
  each may be absent. A lookup either yields such a body or throws inside the \<open>try\<close>
  block: the request fails, the body does not parse, or the body is \<open>null\<close> and reading
  \<open>data.status\<close> throws.
\<close>

record response =
  status :: "string option"
  errormessage :: "string option"
  details :: "Address list option"

datatype fetch_result = Fulfilled response | Rejected

text \<open>The calls that leave the component, in the order they are made.\<close>

datatype effect = Fetch string | Dispatch_addAddress Address | Console_error

text \<open>
  The state the handlers work on: the mapping \<open>values\<close> of \<open>useForm\<close> (here \<open>formValues\<close>),
  the three \<open>useState\<close> cells \<open>error\<close>, \<open>addresses\<close> and \<open>loading\<close>, the store slice
  \<open>addressBook\<close>, and the log of outgoing calls. Events are handled one at a time, each
  handler reading the state of the latest render.
\<close>

record AppState =
  formValues :: obj
  error :: "string option"
  addresses :: "Address list"
  loading :: bool
  addressBook :: CounterState
  effects :: "effect list"

definition initialValues :: obj where
  "initialValues = [''postCode'' \<mapsto> JString '''', ''houseNumber'' \<mapsto> JString '''',
     ''firstName'' \<mapsto> JString '''', ''lastName'' \<mapsto> JString '''',
     ''selectedAddress'' \<mapsto> JString '''']"

definition initialApp :: AppState where
  "initialApp = \<lparr>formValues = initialValues, error = None, addresses = [], loading = False,
     addressBook = initialState, effects = []\<rparr>"

text \<open>An input of one of the forms, or a radio button, fires \<open>onChange\<close>.\<close>

definition onChange :: "target \<Rightarrow> AppState \<Rightarrow> AppState" where
  "onChange e s = s\<lparr>formValues := handleChange e (formValues s)\<rparr>"

definition handleClearAll :: "AppState \<Rightarrow> AppState" where
  "handleClearAll s =
     s\<lparr>formValues := resetForm initialValues None (formValues s), addresses := [], error := None\<rparr>"

definition getAddressesUrl :: "string \<Rightarrow> obj \<Rightarrow> string" where
  "getAddressesUrl baseUrl vs =
     baseUrl @ ''/api/getAddresses?postcode='' @ toString (vs ''postCode'')
       @ ''&streetnumber='' @ toString (vs ''houseNumber'')"

text \<open>
  \<open>handleAddressSubmit\<close> up to the \<open>await\<close>: it clears the error and the candidates,
  validates the two fields, and either stops with the error or sets the busy flag and
  issues the request. The second component is the request, when one is issued.
\<close>

definition handleAddressSubmit_request :: "string \<Rightarrow> AppState \<Rightarrow> AppState \<times> string option" where
  "handleAddressSubmit_request baseUrl s =
     (let s1 = s\<lparr>error := None, addresses := []\<rparr>
      in if \<not> truthy (formValues s ''postCode'') \<or> \<not> truthy (formValues s ''houseNumber'')
         then (s1\<lparr>error := Some ''Postcode and house number fields are mandatory!''\<rparr>, None)
         else (let url = getAddressesUrl baseUrl (formValues s)
               in (s1\<lparr>loading := True, effects := effects s1 @ [Fetch url]\<rparr>, Some url)))"

text \<open>
  \<open>handleAddressSubmit\<close> after the \<open>await\<close>: \<open>vs\<close> is the mapping \<open>values\<close> that the
  handler closed over when the form was submitted, \<open>s\<close> the state when the lookup settles.
\<close>

definition handleAddressSubmit_settle :: "obj \<Rightarrow> fetch_result \<Rightarrow> AppState \<Rightarrow> AppState" where
  "handleAddressSubmit_settle vs r s =
     (let s1 = (case r of
            Fulfilled data \<Rightarrow>
              if status data = Some ''error'' then s\<lparr>error := errormessage data\<rparr>
              else (case details data of
                      Some ds \<Rightarrow>
                        if length ds > 0
                        then s\<lparr>addresses := map (\<lambda>address. address(''houseNumber'' := vs ''houseNumber'')) ds\<rparr>
                        else s\<lparr>error := Some ''No addresses found''\<rparr>
                    | None \<Rightarrow> s\<lparr>error := Some ''No addresses found''\<rparr>)
          | Rejected \<Rightarrow>
              s\<lparr>error := Some ''An error occurred while fetching addresses'',
                effects := effects s @ [Console_error]\<rparr>)
      in s1\<lparr>loading := False\<rparr>)"

text \<open>
  The whole handler, run to its end with no other event in between: \<open>fetch\<close> is the
  Lookup Gateway, giving the outcome of a request.
\<close>

definition handleAddressSubmit :: "string \<Rightarrow> (string \<Rightarrow> fetch_result) \<Rightarrow> AppState \<Rightarrow> AppState" where
  "handleAddressSubmit baseUrl fetch s =
     (case handleAddressSubmit_request baseUrl s of
        (s1, None) \<Rightarrow> s1
      | (s1, Some url) \<Rightarrow> handleAddressSubmit_settle (formValues s) (fetch url) s1)"

text \<open>
  Modelled from the spec: the hook \<open>useAddressBook\<close> is not among the sources; its
  \<open>addAddress\<close> commits a record through the slice's \<open>addAddress\<close>.
\<close>

definition useAddressBook_addAddress :: "Address \<Rightarrow> AppState \<Rightarrow> AppState" where
  "useAddressBook_addAddress a s =
     s\<lparr>addressBook := addAddress (addressBook s) a, effects := effects s @ [Dispatch_addAddress a]\<rparr>"

definition handlePersonSubmit :: "AppState \<Rightarrow> AppState" where
  "handlePersonSubmit s =
     (let vs = formValues s; s1 = s\<lparr>error := None\<rparr>
      in if \<not> truthy (vs ''firstName'') \<or> \<not> truthy (vs ''lastName'')
         then s1\<lparr>error := Some ''First name and last name fields mandatory!''\<rparr>
         else if \<not> truthy (vs ''selectedAddress'') \<or> length (addresses s) = 0
         then s1\<lparr>error := Some ''No address selected, try to select an address or find one if you haven't''\<rparr>
         else (case find (\<lambda>address. address ''id'' = vs ''selectedAddress'') (addresses s) of
                 None \<Rightarrow> s1\<lparr>error := Some ''Selected address not found''\<rparr>
               | Some foundAddress \<Rightarrow>
                   (let s2 = useAddressBook_addAddress
                               (foundAddress(''firstName'' := vs ''firstName'', ''lastName'' := vs ''lastName'')) s1
                    in s2\<lparr>formValues := resetForm initialValues None (formValues s2), addresses := []\<rparr>)))"

section \<open>Sample sessions\<close>

text \<open>
  A session as \<open>App\<close> holds it once the five fields have been filled in: the given
  candidates, no error, no lookup in flight, an empty address book and no outgoing call
  so far. The concrete runs below start from such sessions.
\<close>

definition mkSession :: "string \<Rightarrow> string \<Rightarrow> string \<Rightarrow> string \<Rightarrow> string \<Rightarrow> Address list \<Rightarrow> AppState" where
  "mkSession pc hn fn ln sel cands =
     \<lparr>formValues = [''postCode'' \<mapsto> JString pc, ''houseNumber'' \<mapsto> JString hn,
        ''firstName'' \<mapsto> JString fn, ''lastName'' \<mapsto> JString ln, ''selectedAddress'' \<mapsto> JString sel],
      error = None, addresses = cands, loading = False, addressBook = initialState, effects = []\<rparr>"

text \<open>A Lookup Gateway that settles every request the same way.\<close>

definition answering :: "fetch_result \<Rightarrow> string \<Rightarrow> fetch_result" where
  [simp]: "answering r url = r"

section \<open>Facts about the model\<close>

lemma addAddress_distinct:
  "distinct (map (\<lambda>a. a ''id'') (CounterState.addresses st)) \<Longrightarrow>
   distinct (map (\<lambda>a. a ''id'') (CounterState.addresses (addAddress st r)))"
  by (auto simp: addAddress_def Let_def list_ex_iff)

lemma foldl_addAddress_distinct:
  "distinct (map (\<lambda>a. a ''id'') (CounterState.addresses st)) \<Longrightarrow>
   distinct (map (\<lambda>a. a ''id'') (CounterState.addresses (foldl addAddress st rs)))"
  by (induction rs arbitrary: st) (simp_all add: addAddress_distinct)

lemma find_None_list_ex: "(find P xs = None) = (\<not> list_ex P xs)"
  by (auto simp: find_None_iff list_ex_iff)

lemma formValues_request [simp]:
  "formValues (fst (handleAddressSubmit_request baseUrl s)) = formValues s"
  by (simp add: handleAddressSubmit_request_def Let_def)

lemma formValues_settle [simp]:
  "formValues (handleAddressSubmit_settle vs r t) = formValues t"
  by (simp add: handleAddressSubmit_settle_def Let_def split: fetch_result.splits option.splits)

lemma initialValues_fields:
  "initialValues ''postCode'' = Some (JString '''')"
  "initialValues ''houseNumber'' = Some (JString '''')"
  "initialValues ''firstName'' = Some (JString '''')"
  "initialValues ''lastName'' = Some (JString '''')"
  "initialValues ''selectedAddress'' = Some (JString '''')"
  by (simp_all add: initialValues_def)

lemma map_add_absorb: "dom m \<subseteq> dom n \<Longrightarrow> m ++ n = n"
proof (rule ext)
  fix k
  assume sub: "dom m \<subseteq> dom n"
  show "(m ++ n) k = n k"
  proof (cases "n k")
    case None
    with sub have "m k = None" by (auto simp: dom_def)
    with None show ?thesis by (simp add: map_add_def)
  next
    case (Some v)
    then show ?thesis by (simp add: map_add_def)
  qed
qed

section \<open>Uniqueness of identifiers in the address book\<close>

text \<open>
  C1. Whatever sequence of records is added to the empty address book, no two records of
  the result have the same identifier; adding a record whose identifier is already present
  returns the state as it was (same records, same order, same length), and adding one
  whose identifier is new appends it at the end.
\<close>

theorem addAddress_unique:
  "distinct (map (\<lambda>a. a ''id'') (CounterState.addresses (foldl addAddress initialState rs)))
   \<and> (list_ex (\<lambda>a. a ''id'' = r ''id'') (CounterState.addresses st) \<longrightarrow> addAddress st r = st)
   \<and> (\<not> list_ex (\<lambda>a. a ''id'' = r ''id'') (CounterState.addresses st) \<longrightarrow>
        CounterState.addresses (addAddress st r) = CounterState.addresses st @ [r])"
proof (intro conjI impI)
  have "distinct (map (\<lambda>a. a ''id'') (CounterState.addresses initialState))"
    by (simp add: initialState_def)
  then show "distinct (map (\<lambda>a. a ''id'') (CounterState.addresses (foldl addAddress initialState rs)))"
    by (rule foldl_addAddress_distinct)
next
  assume "list_ex (\<lambda>a. a ''id'' = r ''id'') (CounterState.addresses st)"
  then show "addAddress st r = st"
    by (simp add: addAddress_def)
next
  assume "\<not> list_ex (\<lambda>a. a ''id'' = r ''id'') (CounterState.addresses st)"
  then show "CounterState.addresses (addAddress st r) = CounterState.addresses st @ [r]"
    by (simp add: addAddress_def)
qed

theorem addAddress_unique_witness:
  "distinct (map (\<lambda>a. a ''id'')
      (CounterState.addresses (foldl addAddress initialState
         [[''id'' \<mapsto> JString ''a1'', ''street'' \<mapsto> JString ''Teststraat''],
          [''id'' \<mapsto> JString ''a2''],
          [''id'' \<mapsto> JString ''a1'', ''street'' \<mapsto> JString ''Teststraat'']])))
   \<and> list_ex (\<lambda>a. a ''id'' = [''id'' \<mapsto> JString ''a1''] ''id'')
        (CounterState.addresses
           \<lparr>CounterState.addresses = [[''id'' \<mapsto> JString ''a1'', ''street'' \<mapsto> JString ''Teststraat'']]\<rparr>)
   \<and> addAddress
         \<lparr>CounterState.addresses = [[''id'' \<mapsto> JString ''a1'', ''street'' \<mapsto> JString ''Teststraat'']]\<rparr>
         [''id'' \<mapsto> JString ''a1'']
       = \<lparr>CounterState.addresses = [[''id'' \<mapsto> JString ''a1'', ''street'' \<mapsto> JString ''Teststraat'']]\<rparr>
   \<and> \<not> list_ex (\<lambda>a. a ''id'' = [''id'' \<mapsto> JString ''a2''] ''id'')
        (CounterState.addresses \<lparr>CounterState.addresses = [[''id'' \<mapsto> JString ''a1'']]\<rparr>)
   \<and> CounterState.addresses
         (addAddress \<lparr>CounterState.addresses = [[''id'' \<mapsto> JString ''a1'']]\<rparr> [''id'' \<mapsto> JString ''a2''])
       = [[''id'' \<mapsto> JString ''a1''], [''id'' \<mapsto> JString ''a2'']]"
  using addAddress_unique [of
      "[[''id'' \<mapsto> JString ''a1'', ''street'' \<mapsto> JString ''Teststraat''],
        [''id'' \<mapsto> JString ''a2''],
        [''id'' \<mapsto> JString ''a1'', ''street'' \<mapsto> JString ''Teststraat'']]"
      "[''id'' \<mapsto> JString ''a1'']"
      "\<lparr>CounterState.addresses = [[''id'' \<mapsto> JString ''a1'', ''street'' \<mapsto> JString ''Teststraat'']]\<rparr>"]
    addAddress_unique [of "[]" "[''id'' \<mapsto> JString ''a2'']"
      "\<lparr>CounterState.addresses = [[''id'' \<mapsto> JString ''a1'']]\<rparr>"]
  by simp

section \<open>Mapping the lookup response to the session\<close>

text \<open>
  C2. When a lookup resolves with the body \<open>data\<close>, whatever the session \<open>t\<close> has become
  since the form was submitted, and with \<open>vs\<close> the field values as they were submitted:
  if \<open>status\<close> is \<open>error\<close>, the session error is the body's \<open>errormessage\<close> as it is;
  otherwise, if \<open>details\<close> is non-empty, the candidate list is \<open>details\<close> with every entry
  stamped with the submitted house number; otherwise, \<open>details\<close> being empty or absent,
  the error is \<open>No addresses found\<close>. Where the candidate list is not replaced it stays as
  it was, the busy flag is cleared, and the field values, the address book and the outgoing
  calls are untouched. A search whose two fields are filled in and that no other event
  interrupts is this step on the session with error and candidates cleared, so that the
  candidate list is then empty in the two cases without candidates.
\<close>

theorem lookup_resolves:
  "(status data = Some ''error'' \<longrightarrow>
      error (handleAddressSubmit_settle vs (Fulfilled data) t) = errormessage data
    \<and> AppState.addresses (handleAddressSubmit_settle vs (Fulfilled data) t) = AppState.addresses t)
 \<and> (status data \<noteq> Some ''error'' \<and> details data = Some ds \<and> ds \<noteq> [] \<longrightarrow>
      AppState.addresses (handleAddressSubmit_settle vs (Fulfilled data) t)
        = map (\<lambda>address. address(''houseNumber'' := vs ''houseNumber'')) ds
    \<and> error (handleAddressSubmit_settle vs (Fulfilled data) t) = error t)
 \<and> (status data \<noteq> Some ''error'' \<and> (details data = None \<or> details data = Some []) \<longrightarrow>
      error (handleAddressSubmit_settle vs (Fulfilled data) t) = Some ''No addresses found''
    \<and> AppState.addresses (handleAddressSubmit_settle vs (Fulfilled data) t) = AppState.addresses t)
 \<and> loading (handleAddressSubmit_settle vs (Fulfilled data) t) = False
 \<and> formValues (handleAddressSubmit_settle vs (Fulfilled data) t) = formValues t
 \<and> addressBook (handleAddressSubmit_settle vs (Fulfilled data) t) = addressBook t
 \<and> effects (handleAddressSubmit_settle vs (Fulfilled data) t) = effects t
 \<and> (truthy (formValues s ''postCode'') \<and> truthy (formValues s ''houseNumber'')
      \<and> fetch (getAddressesUrl baseUrl (formValues s)) = Fulfilled data \<longrightarrow>
      handleAddressSubmit baseUrl fetch s
        = handleAddressSubmit_settle (formValues s) (Fulfilled data)
            (s\<lparr>error := None, addresses := [], loading := True,
               effects := effects s @ [Fetch (getAddressesUrl baseUrl (formValues s))]\<rparr>)
    \<and> (status data = Some ''error'' \<longrightarrow>
          error (handleAddressSubmit baseUrl fetch s) = errormessage data
        \<and> AppState.addresses (handleAddressSubmit baseUrl fetch s) = [])
    \<and> (status data \<noteq> Some ''error'' \<and> details data = Some ds \<and> ds \<noteq> [] \<longrightarrow>
          AppState.addresses (handleAddressSubmit baseUrl fetch s)
            = map (\<lambda>address. address(''houseNumber'' := formValues s ''houseNumber'')) ds
        \<and> error (handleAddressSubmit baseUrl fetch s) = None)
    \<and> (status data \<noteq> Some ''error'' \<and> (details data = None \<or> details data = Some []) \<longrightarrow>
          error (handleAddressSubmit baseUrl fetch s) = Some ''No addresses found''
        \<and> AppState.addresses (handleAddressSubmit baseUrl fetch s) = []))"
proof -
  have settle: "(status data = Some ''error'' \<longrightarrow>
      error (handleAddressSubmit_settle vs (Fulfilled data) t) = errormessage data
    \<and> AppState.addresses (handleAddressSubmit_settle vs (Fulfilled data) t) = AppState.addresses t)
   \<and> (status data \<noteq> Some ''error'' \<and> details data = Some ds \<and> ds \<noteq> [] \<longrightarrow>
      AppState.addresses (handleAddressSubmit_settle vs (Fulfilled data) t)
        = map (\<lambda>address. address(''houseNumber'' := vs ''houseNumber'')) ds
    \<and> error (handleAddressSubmit_settle vs (Fulfilled data) t) = error t)
   \<and> (status data \<noteq> Some ''error'' \<and> (details data = None \<or> details data = Some []) \<longrightarrow>
      error (handleAddressSubmit_settle vs (Fulfilled data) t) = Some ''No addresses found''
    \<and> AppState.addresses (handleAddressSubmit_settle vs (Fulfilled data) t) = AppState.addresses t)"
    by (auto simp: handleAddressSubmit_settle_def Let_def)
  have frame: "loading (handleAddressSubmit_settle vs (Fulfilled data) t) = False
    \<and> formValues (handleAddressSubmit_settle vs (Fulfilled data) t) = formValues t
    \<and> addressBook (handleAddressSubmit_settle vs (Fulfilled data) t) = addressBook t
    \<and> effects (handleAddressSubmit_settle vs (Fulfilled data) t) = effects t"
    by (simp add: handleAddressSubmit_settle_def Let_def split: option.splits)
  have whole: "truthy (formValues s ''postCode'') \<and> truthy (formValues s ''houseNumber'')
      \<and> fetch (getAddressesUrl baseUrl (formValues s)) = Fulfilled data \<longrightarrow>
      handleAddressSubmit baseUrl fetch s
        = handleAddressSubmit_settle (formValues s) (Fulfilled data)
            (s\<lparr>error := None, addresses := [], loading := True,
               effects := effects s @ [Fetch (getAddressesUrl baseUrl (formValues s))]\<rparr>)
    \<and> (status data = Some ''error'' \<longrightarrow>
          error (handleAddressSubmit baseUrl fetch s) = errormessage data
        \<and> AppState.addresses (handleAddressSubmit baseUrl fetch s) = [])
    \<and> (status data \<noteq> Some ''error'' \<and> details data = Some ds \<and> ds \<noteq> [] \<longrightarrow>
          AppState.addresses (handleAddressSubmit baseUrl fetch s)
            = map (\<lambda>address. address(''houseNumber'' := formValues s ''houseNumber'')) ds
        \<and> error (handleAddressSubmit baseUrl fetch s) = None)
    \<and> (status data \<noteq> Some ''error'' \<and> (details data = None \<or> details data = Some []) \<longrightarrow>
          error (handleAddressSubmit baseUrl fetch s) = Some ''No addresses found''
        \<and> AppState.addresses (handleAddressSubmit baseUrl fetch s) = [])"
    by (auto simp: handleAddressSubmit_def handleAddressSubmit_request_def
          handleAddressSubmit_settle_def Let_def)
  from settle frame whole show ?thesis by blast
qed

theorem lookup_resolves_witness:
  "formValues ((mkSession ''2000AN'' ''99'' '''' '''' '''' [])\<lparr>loading := True\<rparr>) ''houseNumber''
     = Some (JString ''99'')
 \<and> AppState.addresses (handleAddressSubmit_settle
        (formValues (mkSession ''2000AN'' ''17'' '''' '''' '''' []))
        (Fulfilled \<lparr>status = Some ''ok'', errormessage = None,
           details = Some [[''id'' \<mapsto> JString ''a1'', ''street'' \<mapsto> JString ''Teststraat'']]\<rparr>)
        ((mkSession ''2000AN'' ''99'' '''' '''' '''' [])\<lparr>loading := True\<rparr>))
     = [[''id'' \<mapsto> JString ''a1'', ''street'' \<mapsto> JString ''Teststraat'', ''houseNumber'' \<mapsto> JString ''17'']]
 \<and> loading (handleAddressSubmit_settle
        (formValues (mkSession ''2000AN'' ''17'' '''' '''' '''' []))
        (Fulfilled \<lparr>status = Some ''ok'', errormessage = None,
           details = Some [[''id'' \<mapsto> JString ''a1'', ''street'' \<mapsto> JString ''Teststraat'']]\<rparr>)
        ((mkSession ''2000AN'' ''99'' '''' '''' '''' [])\<lparr>loading := True\<rparr>))
     = False
 \<and> error (handleAddressSubmit_settle
        (formValues (mkSession ''2000AN'' ''17'' '''' '''' '''' []))
        (Fulfilled \<lparr>status = Some ''ok'', errormessage = None, details = Some []\<rparr>)
        ((mkSession ''2000AN'' ''99'' '''' '''' '''' [])\<lparr>loading := True\<rparr>))
     = Some ''No addresses found''
 \<and> AppState.addresses (handleAddressSubmit_settle
        (formValues (mkSession ''2000AN'' ''17'' '''' '''' '''' []))
        (Fulfilled \<lparr>status = Some ''ok'', errormessage = None, details = Some []\<rparr>)
        ((mkSession ''2000AN'' ''99'' '''' '''' '''' [])\<lparr>loading := True\<rparr>))
     = []
 \<and> error (handleAddressSubmit_settle
        (formValues (mkSession ''2000AN'' ''17'' '''' '''' '''' []))
        (Fulfilled \<lparr>status = Some ''error'', errormessage = Some ''Postcode must be at least 4 digits!'',
           details = None\<rparr>)
        ((mkSession ''2000AN'' ''99'' '''' '''' '''' [])\<lparr>loading := True\<rparr>))
     = Some ''Postcode must be at least 4 digits!''
 \<and> truthy (formValues (mkSession ''2000AN'' ''17'' '''' '''' '''' []) ''postCode'')
 \<and> truthy (formValues (mkSession ''2000AN'' ''17'' '''' '''' '''' []) ''houseNumber'')
 \<and> AppState.addresses (handleAddressSubmit ''http://localhost:3000''
        (\<lambda>url. if url = ''http://localhost:3000/api/getAddresses?postcode=2000AN&streetnumber=17''
           then Fulfilled \<lparr>status = Some ''ok'', errormessage = None,
                  details = Some [[''id'' \<mapsto> JString ''a1'', ''street'' \<mapsto> JString ''Teststraat'']]\<rparr>
           else Rejected)
        (mkSession ''2000AN'' ''17'' '''' '''' '''' []))
     = [[''id'' \<mapsto> JString ''a1'', ''street'' \<mapsto> JString ''Teststraat'', ''houseNumber'' \<mapsto> JString ''17'']]"
  using
    lookup_resolves [of
      "\<lparr>status = Some ''ok'', errormessage = None,
         details = Some [[''id'' \<mapsto> JString ''a1'', ''street'' \<mapsto> JString ''Teststraat'']]\<rparr>"
      "formValues (mkSession ''2000AN'' ''17'' '''' '''' '''' [])"
      "(mkSession ''2000AN'' ''99'' '''' '''' '''' [])\<lparr>loading := True\<rparr>"
      "[[''id'' \<mapsto> JString ''a1'', ''street'' \<mapsto> JString ''Teststraat'']]"
      "mkSession ''2000AN'' ''17'' '''' '''' '''' []"
      "\<lambda>url. if url = ''http://localhost:3000/api/getAddresses?postcode=2000AN&streetnumber=17''
           then Fulfilled \<lparr>status = Some ''ok'', errormessage = None,
                  details = Some [[''id'' \<mapsto> JString ''a1'', ''street'' \<mapsto> JString ''Teststraat'']]\<rparr>
           else Rejected"
      "''http://localhost:3000''"]
    lookup_resolves [of
      "\<lparr>status = Some ''ok'', errormessage = None, details = Some []\<rparr>"
      "formValues (mkSession ''2000AN'' ''17'' '''' '''' '''' [])"
      "(mkSession ''2000AN'' ''99'' '''' '''' '''' [])\<lparr>loading := True\<rparr>" "[]"
      "mkSession ''2000AN'' ''17'' '''' '''' '''' []" "answering Rejected" "''http://localhost:3000''"]
    lookup_resolves [of
      "\<lparr>status = Some ''error'', errormessage = Some ''Postcode must be at least 4 digits!'',
         details = None\<rparr>"
      "formValues (mkSession ''2000AN'' ''17'' '''' '''' '''' [])"
      "(mkSession ''2000AN'' ''99'' '''' '''' '''' [])\<lparr>loading := True\<rparr>" "[]"
      "mkSession ''2000AN'' ''17'' '''' '''' '''' []" "answering Rejected" "''http://localhost:3000''"]
  by (simp add: mkSession_def getAddressesUrl_def handleAddressSubmit_settle_def Let_def)

section \<open>A search with an empty field\<close>

text \<open>
  C3, as stated, does not hold: the handler clears the candidate list before it validates
  the two fields. A session that shows one candidate and has an empty postcode loses the
  candidate when the search form is submitted.
\<close>

theorem search_rejected_counterexample:
  "\<not> truthy (formValues
        (mkSession '''' ''17'' '''' '''' ''''
           [[''id'' \<mapsto> JString ''a1'', ''street'' \<mapsto> JString ''Teststraat'', ''houseNumber'' \<mapsto> JString ''17'']])
        ''postCode'')
 \<and> AppState.addresses (handleAddressSubmit ''http://localhost:3000'' (answering Rejected)
        (mkSession '''' ''17'' '''' '''' ''''
           [[''id'' \<mapsto> JString ''a1'', ''street'' \<mapsto> JString ''Teststraat'', ''houseNumber'' \<mapsto> JString ''17'']]))
     = []
 \<and> AppState.addresses (handleAddressSubmit ''http://localhost:3000'' (answering Rejected)
        (mkSession '''' ''17'' '''' '''' ''''
           [[''id'' \<mapsto> JString ''a1'', ''street'' \<mapsto> JString ''Teststraat'', ''houseNumber'' \<mapsto> JString ''17'']]))
     \<noteq> AppState.addresses
        (mkSession '''' ''17'' '''' '''' ''''
           [[''id'' \<mapsto> JString ''a1'', ''street'' \<mapsto> JString ''Teststraat'', ''houseNumber'' \<mapsto> JString ''17'']])"
  by (simp add: mkSession_def handleAddressSubmit_def handleAddressSubmit_request_def)

text \<open>
  C3, amended. Submitting the search form while the postcode or the house number is empty
  sets the error \<open>Postcode and house number fields are mandatory!\<close> and empties the
  candidate list; everything else in the session (the field values, the busy flag, the
  address book, the outgoing calls) is as before.
\<close>

theorem search_rejected:
  assumes "\<not> truthy (formValues s ''postCode'') \<or> \<not> truthy (formValues s ''houseNumber'')"
  shows "handleAddressSubmit baseUrl fetch s
           = s\<lparr>error := Some ''Postcode and house number fields are mandatory!'', addresses := []\<rparr>"
  using assms
  by (auto simp: handleAddressSubmit_def handleAddressSubmit_request_def Let_def)

theorem search_rejected_witness:
  "\<not> truthy (formValues
        (mkSession '''' ''17'' '''' '''' ''''
           [[''id'' \<mapsto> JString ''a1'', ''street'' \<mapsto> JString ''Teststraat'', ''houseNumber'' \<mapsto> JString ''17'']])
        ''postCode'')
 \<and> handleAddressSubmit ''http://localhost:3000'' (answering Rejected)
        (mkSession '''' ''17'' '''' '''' ''''
           [[''id'' \<mapsto> JString ''a1'', ''street'' \<mapsto> JString ''Teststraat'', ''houseNumber'' \<mapsto> JString ''17'']])
     = (mkSession '''' ''17'' '''' '''' '''' [])
         \<lparr>error := Some ''Postcode and house number fields are mandatory!''\<rparr>"
  using search_rejected [of
      "mkSession '''' ''17'' '''' '''' ''''
         [[''id'' \<mapsto> JString ''a1'', ''street'' \<mapsto> JString ''Teststraat'', ''houseNumber'' \<mapsto> JString ''17'']]"
      "''http://localhost:3000''" "answering Rejected"]
  by (simp add: mkSession_def)

text \<open>
  C6. Submitting the search form while the postcode or the house number is empty issues no
  request (none is returned by the first half of the handler, the log of outgoing calls
  does not grow, and the outcome is the same whatever the gateway would answer) and sets
  the mandatory-fields error. The hypothesis covers every combination in which at least
  one of the two fields is empty.
\<close>

theorem search_gated:
  assumes "\<not> truthy (formValues s ''postCode'') \<or> \<not> truthy (formValues s ''houseNumber'')"
  shows "snd (handleAddressSubmit_request baseUrl s) = None
       \<and> effects (handleAddressSubmit baseUrl fetch s) = effects s
       \<and> handleAddressSubmit baseUrl fetch s = handleAddressSubmit baseUrl fetch' s
       \<and> error (handleAddressSubmit baseUrl fetch s) = Some ''Postcode and house number fields are mandatory!''"
  using assms
  by (auto simp: handleAddressSubmit_def handleAddressSubmit_request_def Let_def)

theorem search_gated_witness:
  "\<not> truthy (formValues (mkSession ''2000AN'' '''' '''' '''' '''' []) ''houseNumber'')
 \<and> snd (handleAddressSubmit_request ''http://localhost:3000'' (mkSession ''2000AN'' '''' '''' '''' '''' [])) = None
 \<and> effects (handleAddressSubmit ''http://localhost:3000''
        (answering (Fulfilled \<lparr>status = Some ''ok'', errormessage = None,
                  details = Some [[''id'' \<mapsto> JString ''a1'']]\<rparr>))
        (mkSession ''2000AN'' '''' '''' '''' '''' [])) = []
 \<and> error (handleAddressSubmit ''http://localhost:3000''
        (answering (Fulfilled \<lparr>status = Some ''ok'', errormessage = None,
                  details = Some [[''id'' \<mapsto> JString ''a1'']]\<rparr>))
        (mkSession ''2000AN'' '''' '''' '''' '''' []))
     = Some ''Postcode and house number fields are mandatory!''"
proof -
  have h: "\<not> truthy (formValues (mkSession ''2000AN'' '''' '''' '''' '''' []) ''postCode'')
         \<or> \<not> truthy (formValues (mkSession ''2000AN'' '''' '''' '''' '''' []) ''houseNumber'')"
    by (simp add: mkSession_def)
  have e: "effects (mkSession ''2000AN'' '''' '''' '''' '''' []) = []"
    by (simp add: mkSession_def)
  have n: "\<not> truthy (formValues (mkSession ''2000AN'' '''' '''' '''' '''' []) ''houseNumber'')"
    by (simp add: mkSession_def)
  from n e search_gated [OF h, of "''http://localhost:3000''"
      "answering (Fulfilled \<lparr>status = Some ''ok'', errormessage = None,
                  details = Some [[''id'' \<mapsto> JString ''a1'']]\<rparr>)" "answering Rejected"]
  show ?thesis by metis
qed

section \<open>Submitting personal info\<close>

text \<open>
  C4. The preconditions of the personal-info submission are evaluated in order, and the
  first that fails decides the error: an empty first or last name gives
  \<open>First name and last name fields mandatory!\<close>; otherwise a missing selection or an
  empty candidate list gives \<open>No address selected, ...\<close>; otherwise a selection that no
  candidate carries gives \<open>Selected address not found\<close>; in these three cases nothing but
  the error changes. Otherwise the first candidate with the selected identifier, merged
  with the two names, is committed through \<open>addAddress\<close> and no error is set.
\<close>

theorem handlePersonSubmit_checks:
  "(\<not> truthy (formValues s ''firstName'') \<or> \<not> truthy (formValues s ''lastName'') \<longrightarrow>
       handlePersonSubmit s = s\<lparr>error := Some ''First name and last name fields mandatory!''\<rparr>)
 \<and> (truthy (formValues s ''firstName'') \<and> truthy (formValues s ''lastName'')
     \<and> (\<not> truthy (formValues s ''selectedAddress'') \<or> AppState.addresses s = []) \<longrightarrow>
       handlePersonSubmit s
         = s\<lparr>error := Some ''No address selected, try to select an address or find one if you haven't''\<rparr>)
 \<and> (truthy (formValues s ''firstName'') \<and> truthy (formValues s ''lastName'')
     \<and> truthy (formValues s ''selectedAddress'') \<and> AppState.addresses s \<noteq> []
     \<and> \<not> list_ex (\<lambda>a. a ''id'' = formValues s ''selectedAddress'') (AppState.addresses s) \<longrightarrow>
       handlePersonSubmit s = s\<lparr>error := Some ''Selected address not found''\<rparr>)
 \<and> (truthy (formValues s ''firstName'') \<and> truthy (formValues s ''lastName'')
     \<and> truthy (formValues s ''selectedAddress'') \<and> AppState.addresses s \<noteq> []
     \<and> find (\<lambda>a. a ''id'' = formValues s ''selectedAddress'') (AppState.addresses s) = Some a \<longrightarrow>
       error (handlePersonSubmit s) = None
     \<and> addressBook (handlePersonSubmit s)
         = addAddress (addressBook s)
             (a(''firstName'' := formValues s ''firstName'', ''lastName'' := formValues s ''lastName''))
     \<and> effects (handlePersonSubmit s)
         = effects s @ [Dispatch_addAddress
             (a(''firstName'' := formValues s ''firstName'', ''lastName'' := formValues s ''lastName''))])"
  by (simp add: handlePersonSubmit_def useAddressBook_addAddress_def Let_def
      find_None_list_ex [symmetric])

theorem handlePersonSubmit_checks_witness:
  "error (handlePersonSubmit (mkSession ''2000AN'' ''17'' '''' ''Doe'' ''a1'' [[''id'' \<mapsto> JString ''a1'']]))
     = Some ''First name and last name fields mandatory!''
 \<and> error (handlePersonSubmit (mkSession ''2000AN'' ''17'' ''Jane'' ''Doe'' '''' [[''id'' \<mapsto> JString ''a1'']]))
     = Some ''No address selected, try to select an address or find one if you haven't''
 \<and> error (handlePersonSubmit (mkSession ''2000AN'' ''17'' ''Jane'' ''Doe'' ''a1'' []))
     = Some ''No address selected, try to select an address or find one if you haven't''
 \<and> error (handlePersonSubmit (mkSession ''2000AN'' ''17'' ''Jane'' ''Doe'' ''b2'' [[''id'' \<mapsto> JString ''a1'']]))
     = Some ''Selected address not found''
 \<and> error (handlePersonSubmit (mkSession ''2000AN'' ''17'' ''Jane'' ''Doe'' ''a1'' [[''id'' \<mapsto> JString ''a1'']]))
     = None
 \<and> addressBook (handlePersonSubmit (mkSession ''2000AN'' ''17'' ''Jane'' ''Doe'' ''a1'' [[''id'' \<mapsto> JString ''a1'']]))
     = \<lparr>CounterState.addresses =
          [[''id'' \<mapsto> JString ''a1'', ''firstName'' \<mapsto> JString ''Jane'', ''lastName'' \<mapsto> JString ''Doe'']]\<rparr>"
  using
    handlePersonSubmit_checks [of "mkSession ''2000AN'' ''17'' '''' ''Doe'' ''a1'' [[''id'' \<mapsto> JString ''a1'']]"]
    handlePersonSubmit_checks [of "mkSession ''2000AN'' ''17'' ''Jane'' ''Doe'' '''' [[''id'' \<mapsto> JString ''a1'']]"]
    handlePersonSubmit_checks [of "mkSession ''2000AN'' ''17'' ''Jane'' ''Doe'' ''a1'' []"]
    handlePersonSubmit_checks [of "mkSession ''2000AN'' ''17'' ''Jane'' ''Doe'' ''b2'' [[''id'' \<mapsto> JString ''a1'']]"]
    handlePersonSubmit_checks [of "mkSession ''2000AN'' ''17'' ''Jane'' ''Doe'' ''a1'' [[''id'' \<mapsto> JString ''a1'']]"
      "[''id'' \<mapsto> JString ''a1'']"]
  by (simp add: mkSession_def initialState_def addAddress_def)

text \<open>
  C5. A personal-info submission in which a precondition fails (an empty name, no
  selection, no candidates, or a selection that resolves to no candidate) leaves the
  address book as it was and makes no \<open>addAddress\<close> call.
\<close>

theorem commit_gated:
  assumes "\<not> truthy (formValues s ''firstName'') \<or> \<not> truthy (formValues s ''lastName'')
         \<or> \<not> truthy (formValues s ''selectedAddress'') \<or> AppState.addresses s = []
         \<or> \<not> list_ex (\<lambda>a. a ''id'' = formValues s ''selectedAddress'') (AppState.addresses s)"
  shows "addressBook (handlePersonSubmit s) = addressBook s
       \<and> effects (handlePersonSubmit s) = effects s"
  using assms
  by (auto simp: handlePersonSubmit_def useAddressBook_addAddress_def Let_def
      find_None_list_ex [symmetric])

theorem commit_gated_witness:
  "\<not> list_ex (\<lambda>a. a ''id'' = formValues (mkSession ''2000AN'' ''17'' ''Jane'' ''Doe'' ''b2'' [[''id'' \<mapsto> JString ''a1'']]) ''selectedAddress'')
        (AppState.addresses (mkSession ''2000AN'' ''17'' ''Jane'' ''Doe'' ''b2'' [[''id'' \<mapsto> JString ''a1'']]))
 \<and> addressBook (handlePersonSubmit (mkSession ''2000AN'' ''17'' ''Jane'' ''Doe'' ''b2'' [[''id'' \<mapsto> JString ''a1'']]))
     = initialState
 \<and> effects (handlePersonSubmit (mkSession ''2000AN'' ''17'' ''Jane'' ''Doe'' ''b2'' [[''id'' \<mapsto> JString ''a1'']]))
     = []"
  using commit_gated [of "mkSession ''2000AN'' ''17'' ''Jane'' ''Doe'' ''b2'' [[''id'' \<mapsto> JString ''a1'']]"]
  by (simp add: mkSession_def)

section \<open>Resetting the form\<close>

text \<open>
  C7, as stated, does not hold: \<open>resetForm\<close> spreads its argument over the previous
  mapping, so a field that the overrides do not mention keeps its value. The result is then
  not the overrides, and it changes with the values held before the call.
\<close>

theorem resetForm_counterexample:
  "resetForm [''postCode'' \<mapsto> JString '''', ''firstName'' \<mapsto> JString '''']
      (Some [''firstName'' \<mapsto> JString ''''])
      [''postCode'' \<mapsto> JString ''2000AN'', ''firstName'' \<mapsto> JString ''Jane''] ''postCode''
     = Some (JString ''2000AN'')
 \<and> [''firstName'' \<mapsto> JString ''''] ''postCode'' = None
 \<and> resetForm [''postCode'' \<mapsto> JString '''', ''firstName'' \<mapsto> JString '''']
      (Some [''firstName'' \<mapsto> JString ''''])
      [''postCode'' \<mapsto> JString ''2000AN'', ''firstName'' \<mapsto> JString ''Jane'']
     \<noteq> [''firstName'' \<mapsto> JString '''']
 \<and> resetForm [''postCode'' \<mapsto> JString '''', ''firstName'' \<mapsto> JString '''']
      (Some [''firstName'' \<mapsto> JString ''''])
      [''postCode'' \<mapsto> JString ''2000AN'', ''firstName'' \<mapsto> JString ''Jane'']
     \<noteq> resetForm [''postCode'' \<mapsto> JString '''', ''firstName'' \<mapsto> JString '''']
      (Some [''firstName'' \<mapsto> JString ''''])
      [''postCode'' \<mapsto> JString ''1011AB'', ''firstName'' \<mapsto> JString ''Jane'']"
proof -
  have p: "resetForm [''postCode'' \<mapsto> JString '''', ''firstName'' \<mapsto> JString '''']
      (Some [''firstName'' \<mapsto> JString ''''])
      [''postCode'' \<mapsto> JString ''2000AN'', ''firstName'' \<mapsto> JString ''Jane''] ''postCode''
     = Some (JString ''2000AN'')"
    by (simp add: resetForm_def map_add_def)
  have q: "resetForm [''postCode'' \<mapsto> JString '''', ''firstName'' \<mapsto> JString '''']
      (Some [''firstName'' \<mapsto> JString ''''])
      [''postCode'' \<mapsto> JString ''1011AB'', ''firstName'' \<mapsto> JString ''Jane''] ''postCode''
     = Some (JString ''1011AB'')"
    by (simp add: resetForm_def map_add_def)
  have r: "[''firstName'' \<mapsto> JString ''''] ''postCode'' = (None :: jsval option)"
    by simp
  have d: "Some (JString ''2000AN'') \<noteq> Some (JString ''1011AB'')"
    by simp
  from p r have "resetForm [''postCode'' \<mapsto> JString '''', ''firstName'' \<mapsto> JString '''']
      (Some [''firstName'' \<mapsto> JString ''''])
      [''postCode'' \<mapsto> JString ''2000AN'', ''firstName'' \<mapsto> JString ''Jane'']
     \<noteq> [''firstName'' \<mapsto> JString '''']"
    by (metis option.distinct(1))
  moreover from p q d have "resetForm [''postCode'' \<mapsto> JString '''', ''firstName'' \<mapsto> JString '''']
      (Some [''firstName'' \<mapsto> JString ''''])
      [''postCode'' \<mapsto> JString ''2000AN'', ''firstName'' \<mapsto> JString ''Jane'']
     \<noteq> resetForm [''postCode'' \<mapsto> JString '''', ''firstName'' \<mapsto> JString '''']
      (Some [''firstName'' \<mapsto> JString ''''])
      [''postCode'' \<mapsto> JString ''1011AB'', ''firstName'' \<mapsto> JString ''Jane'']"
    by metis
  ultimately show ?thesis using p r by blast
qed

text \<open>
  C7, amended. \<open>resetForm(overrides)\<close> merges the overrides into the current mapping:
  a field of the overrides takes the overriding value, every other field keeps its value;
  the result is the overrides when the current mapping has no field outside them. With no
  argument the initial values are merged in the same way, and the result is the initial
  mapping when the current mapping has no field outside it; resetting twice is resetting
  once.
\<close>

theorem resetForm_merges:
  "(\<forall>k. resetForm init (Some ov) prev k = (case ov k of Some v \<Rightarrow> Some v | None \<Rightarrow> prev k))
 \<and> (\<forall>k. resetForm init None prev k = (case init k of Some v \<Rightarrow> Some v | None \<Rightarrow> prev k))
 \<and> (dom prev \<subseteq> dom ov \<longrightarrow> resetForm init (Some ov) prev = ov)
 \<and> (dom prev \<subseteq> dom init \<longrightarrow> resetForm init None prev = init)
 \<and> resetForm init None (resetForm init None prev) = resetForm init None prev"
proof (intro conjI allI impI)
  fix k
  show "resetForm init (Some ov) prev k = (case ov k of Some v \<Rightarrow> Some v | None \<Rightarrow> prev k)"
    by (simp add: resetForm_def map_add_def split: option.splits)
  show "resetForm init None prev k = (case init k of Some v \<Rightarrow> Some v | None \<Rightarrow> prev k)"
    by (simp add: resetForm_def map_add_def split: option.splits)
next
  assume "dom prev \<subseteq> dom ov"
  then show "resetForm init (Some ov) prev = ov"
    by (simp add: resetForm_def map_add_absorb)
next
  assume "dom prev \<subseteq> dom init"
  then show "resetForm init None prev = init"
    by (simp add: resetForm_def map_add_absorb)
next
  have "(prev ++ init) ++ init = prev ++ init"
    by (rule ext) (simp add: map_add_def split: option.splits)
  then show "resetForm init None (resetForm init None prev) = resetForm init None prev"
    by (simp add: resetForm_def)
qed

theorem resetForm_merges_witness:
  "dom [''firstName'' \<mapsto> JString ''Jane''] \<subseteq> dom [''firstName'' \<mapsto> JString '''', ''lastName'' \<mapsto> JString '''']
 \<and> resetForm [''postCode'' \<mapsto> JString '''', ''firstName'' \<mapsto> JString '''', ''lastName'' \<mapsto> JString '''']
       (Some [''firstName'' \<mapsto> JString '''', ''lastName'' \<mapsto> JString ''''])
       [''firstName'' \<mapsto> JString ''Jane'']
     = [''firstName'' \<mapsto> JString '''', ''lastName'' \<mapsto> JString '''']
 \<and> dom [''postCode'' \<mapsto> JString ''2000AN'', ''firstName'' \<mapsto> JString ''Jane'']
       \<subseteq> dom [''postCode'' \<mapsto> JString '''', ''firstName'' \<mapsto> JString '''', ''lastName'' \<mapsto> JString '''']
 \<and> resetForm [''postCode'' \<mapsto> JString '''', ''firstName'' \<mapsto> JString '''', ''lastName'' \<mapsto> JString '''']
       None [''postCode'' \<mapsto> JString ''2000AN'', ''firstName'' \<mapsto> JString ''Jane'']
     = [''postCode'' \<mapsto> JString '''', ''firstName'' \<mapsto> JString '''', ''lastName'' \<mapsto> JString '''']"
  using
    resetForm_merges [of "[''postCode'' \<mapsto> JString '''', ''firstName'' \<mapsto> JString '''', ''lastName'' \<mapsto> JString '''']"
      "[''firstName'' \<mapsto> JString '''', ''lastName'' \<mapsto> JString '''']" "[''firstName'' \<mapsto> JString ''Jane'']"]
    resetForm_merges [of "[''postCode'' \<mapsto> JString '''', ''firstName'' \<mapsto> JString '''', ''lastName'' \<mapsto> JString '''']"
      "[''firstName'' \<mapsto> JString '''', ''lastName'' \<mapsto> JString '''']"
      "[''postCode'' \<mapsto> JString ''2000AN'', ''firstName'' \<mapsto> JString ''Jane'']"]
  by simp

text \<open>
  C8, as stated, does not hold: after a successful commit the handler calls \<open>resetForm\<close>
  with no argument, which resets the postcode and the house number as well.
\<close>

theorem commit_resets_form_counterexample:
  "formValues (mkSession ''2000AN'' ''17'' ''Jane'' ''Doe'' ''a1'' [[''id'' \<mapsto> JString ''a1'']]) ''postCode''
     = Some (JString ''2000AN'')
 \<and> formValues (mkSession ''2000AN'' ''17'' ''Jane'' ''Doe'' ''a1'' [[''id'' \<mapsto> JString ''a1'']]) ''houseNumber''
     = Some (JString ''17'')
 \<and> addressBook (handlePersonSubmit (mkSession ''2000AN'' ''17'' ''Jane'' ''Doe'' ''a1'' [[''id'' \<mapsto> JString ''a1'']]))
     = \<lparr>CounterState.addresses =
          [[''id'' \<mapsto> JString ''a1'', ''firstName'' \<mapsto> JString ''Jane'', ''lastName'' \<mapsto> JString ''Doe'']]\<rparr>
 \<and> formValues (handlePersonSubmit (mkSession ''2000AN'' ''17'' ''Jane'' ''Doe'' ''a1'' [[''id'' \<mapsto> JString ''a1'']]))
       ''postCode''
     = Some (JString '''')
 \<and> formValues (handlePersonSubmit (mkSession ''2000AN'' ''17'' ''Jane'' ''Doe'' ''a1'' [[''id'' \<mapsto> JString ''a1'']]))
       ''houseNumber''
     = Some (JString '''')"
  by (simp add: mkSession_def handlePersonSubmit_def useAddressBook_addAddress_def addAddress_def
        initialState_def resetForm_def initialValues_def)

text \<open>
  C8, amended. After a successful personal-info commit the candidate list is empty and
  every field of the form is reset to its initial empty value: the first name, the last
  name and the selection, and the postcode and the house number too.
\<close>

theorem commit_resets_form:
  assumes "truthy (formValues s ''firstName'')" and "truthy (formValues s ''lastName'')"
    and "truthy (formValues s ''selectedAddress'')" and "AppState.addresses s \<noteq> []"
    and "list_ex (\<lambda>a. a ''id'' = formValues s ''selectedAddress'') (AppState.addresses s)"
  shows "AppState.addresses (handlePersonSubmit s) = []
       \<and> formValues (handlePersonSubmit s) ''firstName'' = Some (JString '''')
       \<and> formValues (handlePersonSubmit s) ''lastName'' = Some (JString '''')
       \<and> formValues (handlePersonSubmit s) ''selectedAddress'' = Some (JString '''')
       \<and> formValues (handlePersonSubmit s) ''postCode'' = Some (JString '''')
       \<and> formValues (handlePersonSubmit s) ''houseNumber'' = Some (JString '''')
       \<and> (dom (formValues s) \<subseteq> dom initialValues \<longrightarrow> formValues (handlePersonSubmit s) = initialValues)"
proof -
  from assms(5) obtain a where
    "find (\<lambda>a. a ''id'' = formValues s ''selectedAddress'') (AppState.addresses s) = Some a"
    by (cases "find (\<lambda>a. a ''id'' = formValues s ''selectedAddress'') (AppState.addresses s)")
       (auto simp: find_None_list_ex)
  with assms(1-4) show ?thesis
    by (simp add: handlePersonSubmit_def useAddressBook_addAddress_def Let_def resetForm_def
          initialValues_fields map_add_absorb)
qed

theorem commit_resets_form_witness:
  "truthy (formValues (mkSession ''2000AN'' ''17'' ''Jane'' ''Doe'' ''a1'' [[''id'' \<mapsto> JString ''a1'']]) ''firstName'')
 \<and> truthy (formValues (mkSession ''2000AN'' ''17'' ''Jane'' ''Doe'' ''a1'' [[''id'' \<mapsto> JString ''a1'']]) ''lastName'')
 \<and> truthy (formValues (mkSession ''2000AN'' ''17'' ''Jane'' ''Doe'' ''a1'' [[''id'' \<mapsto> JString ''a1'']]) ''selectedAddress'')
 \<and> list_ex (\<lambda>a. a ''id'' = formValues (mkSession ''2000AN'' ''17'' ''Jane'' ''Doe'' ''a1'' [[''id'' \<mapsto> JString ''a1'']]) ''selectedAddress'')
      (AppState.addresses (mkSession ''2000AN'' ''17'' ''Jane'' ''Doe'' ''a1'' [[''id'' \<mapsto> JString ''a1'']]))
 \<and> dom (formValues (mkSession ''2000AN'' ''17'' ''Jane'' ''Doe'' ''a1'' [[''id'' \<mapsto> JString ''a1'']])) \<subseteq> dom initialValues
 \<and> AppState.addresses (handlePersonSubmit (mkSession ''2000AN'' ''17'' ''Jane'' ''Doe'' ''a1'' [[''id'' \<mapsto> JString ''a1'']])) = []
 \<and> formValues (handlePersonSubmit (mkSession ''2000AN'' ''17'' ''Jane'' ''Doe'' ''a1'' [[''id'' \<mapsto> JString ''a1'']]))
     = initialValues"
  using commit_resets_form [of "mkSession ''2000AN'' ''17'' ''Jane'' ''Doe'' ''a1'' [[''id'' \<mapsto> JString ''a1'']]"]
  by (simp add: mkSession_def initialValues_def)

text \<open>
  C9. Clear-all, from any session: each of the five fields is reset to its initial empty
  value (the mapping is the initial one when it had no other field), the candidate list
  and the error are cleared, and the address book and the log of outgoing calls are as
  before.
\<close>

theorem clear_all:
  "formValues (handleClearAll s) ''postCode'' = Some (JString '''')
 \<and> formValues (handleClearAll s) ''houseNumber'' = Some (JString '''')
 \<and> formValues (handleClearAll s) ''firstName'' = Some (JString '''')
 \<and> formValues (handleClearAll s) ''lastName'' = Some (JString '''')
 \<and> formValues (handleClearAll s) ''selectedAddress'' = Some (JString '''')
 \<and> (dom (formValues s) \<subseteq> dom initialValues \<longrightarrow> formValues (handleClearAll s) = initialValues)
 \<and> AppState.addresses (handleClearAll s) = []
 \<and> error (handleClearAll s) = None
 \<and> addressBook (handleClearAll s) = addressBook s
 \<and> effects (handleClearAll s) = effects s"
  by (simp add: handleClearAll_def resetForm_def initialValues_fields map_add_absorb)

theorem clear_all_witness:
  "dom (formValues ((mkSession ''2000AN'' ''17'' ''Jane'' ''Doe'' ''a1'' [[''id'' \<mapsto> JString ''a1'']])
          \<lparr>error := Some ''Selected address not found'',
           addressBook := \<lparr>CounterState.addresses = [[''id'' \<mapsto> JString ''a1'', ''firstName'' \<mapsto> JString ''Jane'']]\<rparr>\<rparr>))
     \<subseteq> dom initialValues
 \<and> formValues (handleClearAll ((mkSession ''2000AN'' ''17'' ''Jane'' ''Doe'' ''a1'' [[''id'' \<mapsto> JString ''a1'']])
          \<lparr>error := Some ''Selected address not found'',
           addressBook := \<lparr>CounterState.addresses = [[''id'' \<mapsto> JString ''a1'', ''firstName'' \<mapsto> JString ''Jane'']]\<rparr>\<rparr>))
     = initialValues
 \<and> AppState.addresses (handleClearAll ((mkSession ''2000AN'' ''17'' ''Jane'' ''Doe'' ''a1'' [[''id'' \<mapsto> JString ''a1'']])
          \<lparr>error := Some ''Selected address not found'',
           addressBook := \<lparr>CounterState.addresses = [[''id'' \<mapsto> JString ''a1'', ''firstName'' \<mapsto> JString ''Jane'']]\<rparr>\<rparr>))
     = []
 \<and> error (handleClearAll ((mkSession ''2000AN'' ''17'' ''Jane'' ''Doe'' ''a1'' [[''id'' \<mapsto> JString ''a1'']])
          \<lparr>error := Some ''Selected address not found'',
           addressBook := \<lparr>CounterState.addresses = [[''id'' \<mapsto> JString ''a1'', ''firstName'' \<mapsto> JString ''Jane'']]\<rparr>\<rparr>))
     = None
 \<and> addressBook (handleClearAll ((mkSession ''2000AN'' ''17'' ''Jane'' ''Doe'' ''a1'' [[''id'' \<mapsto> JString ''a1'']])
          \<lparr>error := Some ''Selected address not found'',
           addressBook := \<lparr>CounterState.addresses = [[''id'' \<mapsto> JString ''a1'', ''firstName'' \<mapsto> JString ''Jane'']]\<rparr>\<rparr>))
     = \<lparr>CounterState.addresses = [[''id'' \<mapsto> JString ''a1'', ''firstName'' \<mapsto> JString ''Jane'']]\<rparr>"
  using clear_all [of "(mkSession ''2000AN'' ''17'' ''Jane'' ''Doe'' ''a1'' [[''id'' \<mapsto> JString ''a1'']])
          \<lparr>error := Some ''Selected address not found'',
           addressBook := \<lparr>CounterState.addresses = [[''id'' \<mapsto> JString ''a1'', ''firstName'' \<mapsto> JString ''Jane'']]\<rparr>\<rparr>"]
  by (simp add: mkSession_def initialValues_def)

section \<open>A selection that outlives a search\<close>




end
